theory Spec2Isabelle
  imports Main "HOL-Library.Sublist" "HOL-Library.List_Lexorder" "HOL-Library.Char_ord"
begin

section \<open>Assets and the compiled-asset pass of theme_client.go\<close>

text \<open>
  Go strings are byte sequences compared bytewise; \<open>string\<close> (a list of 8-bit characters)
  with the lexicographic order of \<open>List_Lexorder\<close> over \<open>Char_ord\<close> is the same order.
\<close>

text \<open>
  Modelled from the spec: the struct \<open>Asset\<close> is declared outside theme_client.go. The spec
  (sections 3 and 6) gives it the wire fields key, value and attachment; the source reads
  only \<open>Key\<close>.
\<close>

record Asset =
  Key :: string
  Value :: string
  Attachment :: string

definition zeroAsset :: Asset where
  "zeroAsset = \<lparr>Key = [], Value = [], Attachment = []\<rparr>"

text \<open>
  \<open>strings.Contains(s, substr)\<close> of the Go standard library: \<open>substr\<close> occurs in \<open>s\<close> as a
  contiguous block, at the first position or at a later one.
\<close>

fun strings_Contains :: "string \<Rightarrow> string \<Rightarrow> bool" where
  "strings_Contains [] substr = (substr = [])"
| "strings_Contains (c # s) substr = (if prefix substr (c # s) then True else strings_Contains s substr)"

text \<open>The closure \<open>isCompiled\<close> of \<open>ignoreCompiledAssets\<close>: a loop over \<open>rest\<close> with an early return.\<close>

fun isCompiled :: "Asset \<Rightarrow> Asset list \<Rightarrow> bool" where
  "isCompiled a [] = False"
| "isCompiled a (other # rest) =
     (if strings_Contains (Key other) (Key a) then True else isCompiled a rest)"

text \<open>
  The main loop of \<open>ignoreCompiledAssets\<close>. The first argument is \<open>assets[index:]\<close>, so its tail
  is \<open>assets[index+1:]\<close>; \<open>results\<close> is the preallocated slice, written at \<open>newSize\<close>.
\<close>

fun ignoreLoop :: "Asset list \<Rightarrow> Asset list \<Rightarrow> nat \<Rightarrow> Asset list \<times> nat" where
  "ignoreLoop [] results newSize = (results, newSize)"
| "ignoreLoop (asset # rest) results newSize =
     (if isCompiled asset rest
      then ignoreLoop rest results newSize
      else ignoreLoop rest (results[newSize := asset]) (newSize + 1))"

definition ignoreCompiledAssets :: "Asset list \<Rightarrow> Asset list" where
  "ignoreCompiledAssets assets =
     (case ignoreLoop assets (replicate (length assets) zeroAsset) 0 of
        (results, newSize) \<Rightarrow> take newSize results)"

text \<open>The same pass written as a recursive filter, used to reason about the loop.\<close>

fun retained :: "Asset list \<Rightarrow> Asset list" where
  "retained [] = []"
| "retained (a # rest) = (if isCompiled a rest then retained rest else a # retained rest)"

text \<open>A key that occurs inside another, different key.\<close>

definition strictSubstring :: "string \<Rightarrow> string \<Rightarrow> bool" where
  "strictSubstring a b = (strings_Contains b a \<and> a \<noteq> b)"

section \<open>Errors, requests and the world outside the client\<close>

text \<open>
  A Go \<open>error\<close> is either a value made by a library (net/http, net/url, encoding/json,
  \<open>errors.New\<close>), kept here as its message, or the client's own \<open>NonFatalNetworkError\<close>
  with its fields \<open>Code\<close>, \<open>Verb\<close> and \<open>Message\<close>.
\<close>

datatype error = Generic string | NonFatalNetworkError int string string

text \<open>
  An \<open>*http.Request\<close> as \<open>http.NewRequest(method, path, body)\<close> builds it, and what the
  client reads of an \<open>*http.Response\<close>: the status code, the bytes \<open>ioutil.ReadAll\<close> returns
  for its body, and the error \<open>ReadAll\<close> returns with them. The headers that
  \<open>config.AddHeaders\<close> attaches are left out: nothing below depends on them.
\<close>

record request =
  Method :: string
  Url :: string
  Payload :: string

record response =
  StatusCode :: int
  Body :: string
  ReadErr :: "string option"

record apiResponse =
  code :: int
  body :: string
  err :: "error option"

type_synonym EventType = int

definition Update :: EventType where
  "Update = 0"

definition Remove :: EventType where
  "Remove = 1"

text \<open>The interface \<open>AssetEvent\<close>: the values of its methods \<open>Asset()\<close> and \<open>Type()\<close>.\<close>

record AssetEvent =
  EventAsset :: Asset
  EventType :: EventType

record Theme =
  Name :: string
  Source :: string
  Role :: string
  Id :: int
  Previewable :: bool

text \<open>
  Modelled from the spec: \<open>APIThemeEvent\<close> is declared outside theme_client.go. The source
  reads its method \<open>Successful()\<close> and its fields \<open>ThemeId\<close> and \<open>Previewable\<close>; the spec
  (section 3) describes it as the outcome of a theme create or status call.
\<close>

record APIThemeEvent =
  Successful :: bool
  ThemeId :: int
  Previewable :: bool

definition zeroThemeEvent :: APIThemeEvent where
  "zeroThemeEvent = \<lparr>Successful = False, ThemeId = 0, Previewable = False\<rparr>"

text \<open>
  The interface \<open>ThemeEvent\<close> with the two implementations \<open>Perform\<close> returns: \<open>NoOpEvent{}\<close>
  and the value of \<open>NewAPIAssetEvent(r, event, err)\<close>, a constructor declared outside
  theme_client.go and kept here as its three arguments.
\<close>

datatype ThemeEvent =
  NoOpEvent
| APIAssetEvent "response option" AssetEvent "error option"

text \<open>
  Modelled from the spec: \<open>Configuration\<close> is declared outside theme_client.go. The spec
  (section 3) lists its contents; \<open>AdminUrl\<close> and \<open>AssetPath\<close> are the values of the methods
  \<open>AdminUrl()\<close> and \<open>AssetPath()\<close>.
\<close>

record Configuration =
  AdminUrl :: string
  AssetPath :: string
  IgnoredFiles :: "string list"
  Ignores :: "string list"
  BucketSize :: int
  RefillRate :: int
  Proxy :: string
  ThemeId :: int

text \<open>
  The struct \<open>ThemeClient\<close>. Its \<open>*http.Client\<close> is the transport of the environment below;
  its \<open>EventFilter\<close> is the predicate \<open>MatchesFilter\<close>.
\<close>

record ThemeClient =
  config :: Configuration
  filter' :: "string \<Rightarrow> bool"

text \<open>
  Modelled from the spec: \<open>LeakyBucket\<close> and its constructor \<open>NewLeakyBucket\<close> are declared
  outside theme_client.go. The spec (section 4.4) gives a limiter a capacity, a refill rate
  and an acquire cost.
\<close>

record LeakyBucket =
  capacity :: int
  refillRate :: int
  acquireCost :: int

text \<open>
  The state the client works on: the requests handed to \<open>client.Do\<close> so far, the errors given
  to \<open>NotifyError\<close>, the events for which a \<open>logEvent\<close> goroutine was started, the milliseconds
  spent in \<open>time.Sleep\<close>, and the store of limiter instances (a pointer is an index into it).
\<close>

record world =
  sent :: "request list"
  notified :: "error list"
  logged :: "APIThemeEvent list"
  slept :: nat
  limiters :: "LeakyBucket list"

text \<open>
  What the client calls but theme_client.go does not define: the Go libraries (URL parsing
  inside \<open>http.NewRequest\<close>, the round trip of \<open>client.Do\<close>, JSON encoding and decoding) and
  the parts of the package declared in other files. The transport answers a request given
  the requests sent before it, with a response or with the message of a transport error.
\<close>

record env =
  UrlParse :: "string \<Rightarrow> string option"
  Transport :: "request list \<Rightarrow> request \<Rightarrow> string + response"
  MarshalAsset :: "Asset \<Rightarrow> string"
  MarshalTheme :: "Theme \<Rightarrow> string"
  UnmarshalAssets :: "string \<Rightarrow> string + (string \<Rightarrow> Asset list option)"
  UnmarshalAsset :: "string \<Rightarrow> string + (string \<Rightarrow> Asset option)"
  NewAPIThemeEvent :: "response option \<Rightarrow> error option \<Rightarrow> APIThemeEvent"
  NewEventFilterFromPatternsAndFiles :: "string list \<Rightarrow> string list \<Rightarrow> string \<Rightarrow> bool"
  Initialize :: "Configuration \<Rightarrow> Configuration"

text \<open>A call that ends in a panic (a nil request is dereferenced) returns nothing.\<close>

datatype 'a outcome = Crashed | Returned 'a

text \<open>
  \<open>http.NewRequest\<close>: it fails exactly when the URL does not parse (the client passes no
  other verb than \<open>GET\<close>, \<open>POST\<close>, \<open>PUT\<close>, \<open>DELETE\<close> and the empty one), and net/http sends
  a request with the empty verb as a \<open>GET\<close>.
\<close>

definition http_NewRequest :: "env \<Rightarrow> string \<Rightarrow> string \<Rightarrow> string \<Rightarrow> error + request" where
  "http_NewRequest e method path payload =
     (case UrlParse e path of
        Some msg \<Rightarrow> Inl (Generic msg)
      | None \<Rightarrow>
          Inr \<lparr>Method = (if method = [] then ''GET'' else method), Url = path,
               Payload = payload\<rparr>)"

text \<open>\<open>t.client.Do(req)\<close>: one HTTP call, recorded in the world.\<close>

definition client_Do :: "env \<Rightarrow> world \<Rightarrow> request \<Rightarrow> (error + response) \<times> world" where
  "client_Do e w req =
     (case Transport e (sent w) req of
        Inl msg \<Rightarrow> (Inl (Generic msg), w\<lparr>sent := sent w @ [req]\<rparr>)
      | Inr resp \<Rightarrow> (Inr resp, w\<lparr>sent := sent w @ [req]\<rparr>))"

text \<open>
  Modelled from the spec: \<open>NotifyError\<close> is declared outside theme_client.go. The spec
  (section 7) has it report to a process-wide sink without ending the process.
\<close>

definition NotifyError :: "error \<Rightarrow> world \<Rightarrow> world" where
  "NotifyError x w = w\<lparr>notified := notified w @ [x]\<rparr>"

section \<open>Queries: \<open>query\<close>, \<open>Asset\<close>, \<open>AssetList\<close>, \<open>AssetListSync\<close>\<close>

definition query :: "env \<Rightarrow> ThemeClient \<Rightarrow> world \<Rightarrow> (string \<Rightarrow> string) \<Rightarrow> apiResponse \<times> world" where
  "query e t w queryBuilder =
     (let path = queryBuilder (AssetPath (config t) @ ''?fields=key,attachment,value'') in
      case http_NewRequest e ''GET'' path [] of
        Inl x \<Rightarrow> (\<lparr>code = 0, body = [], err = Some x\<rparr>, w)
      | Inr req \<Rightarrow>
          (case client_Do e w req of
             (Inl x, w') \<Rightarrow> (\<lparr>code = 0, body = [], err = Some x\<rparr>, w')
           | (Inr resp, w') \<Rightarrow>
               (\<lparr>code = StatusCode resp, body = Body resp,
                 err = map_option Generic (ReadErr resp)\<rparr>, w')))"

text \<open>\<open>ThemeClient.Asset(filename)\<close>; a missing key of the decoded map is the zero \<open>Asset\<close>.\<close>

definition Asset :: "env \<Rightarrow> ThemeClient \<Rightarrow> world \<Rightarrow> string \<Rightarrow> (error + Asset) \<times> world" where
  "Asset e t w filename =
     (case query e t w (\<lambda>path. path @ ''&asset[key]='' @ filename) of
        (resp, w') \<Rightarrow>
          (case err resp of
             Some x \<Rightarrow> (Inl x, w')
           | None \<Rightarrow>
               if code resp \<ge> 400
               then (Inl (NonFatalNetworkError (code resp) ''GET'' ''not found''), w')
               else
                 (case UnmarshalAsset e (body resp) of
                    Inl msg \<Rightarrow> (Inl (Generic msg), w')
                  | Inr asset \<Rightarrow>
                      (Inr (case asset ''asset'' of None \<Rightarrow> zeroAsset | Some a \<Rightarrow> a), w'))))"

text \<open>
  What the goroutine of \<open>AssetList\<close> does to its two unbuffered channels, in program order.
\<close>

datatype listing_action = SendErr error | SendResult Asset | CloseResults | CloseErrs

text \<open>
  Modelled from the spec: the order \<open>ByAsset\<close> is declared outside theme_client.go; the spec
  (sections 3 and 4.1) orders assets by key, lexicographically. \<open>sort.Sort\<close> may place assets
  with equal keys in any order; \<open>sort_key\<close> is one such outcome, and the only one when the
  keys are distinct.
\<close>

definition sort_ByAsset :: "Asset list \<Rightarrow> Asset list" where
  "sort_ByAsset assets = sort_key Key assets"

definition AssetList :: "env \<Rightarrow> ThemeClient \<Rightarrow> world \<Rightarrow> listing_action list \<times> world" where
  "AssetList e t w =
     (case query e t w (\<lambda>path. path) of
        (resp, w') \<Rightarrow>
          (let reported = (case err resp of Some x \<Rightarrow> [SendErr x] | None \<Rightarrow> []) in
           case UnmarshalAssets e (body resp) of
             Inl msg \<Rightarrow> (reported @ [SendErr (Generic msg)], w')
           | Inr assets \<Rightarrow>
               (let sorted_assets =
                      sort_ByAsset (case assets ''assets'' of None \<Rightarrow> [] | Some xs \<Rightarrow> xs);
                    sanitizedAssets = ignoreCompiledAssets sorted_assets
                in (reported @ map SendResult sanitizedAssets @ [CloseResults, CloseErrs], w'))))"

text \<open>
  The loop of \<open>AssetListSync\<close> against the goroutine's actions. It receives on the result
  channel only. A send on the error channel finds no receiver, so the goroutine stops
  there for ever, and so does one that has returned without closing the result channel:
  the receive then never completes (\<open>None\<close>).
\<close>

fun receiveResults :: "listing_action list \<Rightarrow> Asset list \<Rightarrow> Asset list option" where
  "receiveResults [] results = None"
| "receiveResults (SendResult asset # rest) results = receiveResults rest (results @ [asset])"
| "receiveResults (CloseResults # rest) results = Some results"
| "receiveResults (SendErr x # rest) results = None"
| "receiveResults (CloseErrs # rest) results = receiveResults rest results"

definition AssetListSync :: "env \<Rightarrow> ThemeClient \<Rightarrow> world \<Rightarrow> Asset list option \<times> world" where
  "AssetListSync e t w =
     (case AssetList e t w of (actions, w') \<Rightarrow> (receiveResults actions [], w'))"

section \<open>Dispatch: \<open>request\<close>, \<open>Perform\<close>, \<open>Process\<close>\<close>

text \<open>\<open>request\<close> returns \<open>(*http.Response, error)\<close>; no call is made when the request cannot be built.\<close>

definition request :: "env \<Rightarrow> ThemeClient \<Rightarrow> world \<Rightarrow> AssetEvent \<Rightarrow> string \<Rightarrow> (error + response) \<times> world" where
  "request e t w event method =
     (let path = AssetPath (config t);
          encoded = MarshalAsset e (EventAsset event)
      in case http_NewRequest e method path encoded of
           Inl x \<Rightarrow> (Inl x, w)
         | Inr req \<Rightarrow> client_Do e w req)"

definition processResponse :: "error + response \<Rightarrow> AssetEvent \<Rightarrow> ThemeEvent" where
  "processResponse r event =
     (case r of
        Inl x \<Rightarrow> APIAssetEvent None event (Some x)
      | Inr resp \<Rightarrow> APIAssetEvent (Some resp) event None)"

definition Perform :: "env \<Rightarrow> ThemeClient \<Rightarrow> world \<Rightarrow> AssetEvent \<Rightarrow> ThemeEvent \<times> world" where
  "Perform e t w asset =
     (if filter' t (Key (EventAsset asset)) then (NoOpEvent, w)
      else
        (let event = (if EventType asset = Update then ''PUT''
                      else if EventType asset = Remove then ''DELETE'' else [])
         in case request e t w asset event of
              (r, w') \<Rightarrow> (processResponse r asset, w')))"

text \<open>
  \<open>Process\<close>: what successive receives on \<open>events\<close> yield (a job, or the closed channel), and
  what the goroutine does to \<open>messages\<close> and \<open>done\<close>, in program order. When the producer
  neither sends nor closes, the goroutine waits and does nothing more.
\<close>

datatype 'a received = Job 'a | ChannelClosed

datatype process_action = SendMessage ThemeEvent | CloseMessages | SendDone bool

fun Process :: "env \<Rightarrow> ThemeClient \<Rightarrow> world \<Rightarrow> AssetEvent received list \<Rightarrow> process_action list \<times> world" where
  "Process e t w [] = ([], w)"
| "Process e t w (Job job # events) =
     (case Perform e t w job of
        (message, w') \<Rightarrow>
          (case Process e t w' events of
             (actions, w'') \<Rightarrow> (SendMessage message # actions, w'')))"
| "Process e t w (ChannelClosed # events) = ([CloseMessages, SendDone True], w)"

text \<open>
  The jobs of a stream dispatched one after another: the results of \<open>Perform\<close>, and the
  world after the last.
\<close>

fun performAll :: "env \<Rightarrow> ThemeClient \<Rightarrow> world \<Rightarrow> AssetEvent list \<Rightarrow> ThemeEvent list \<times> world" where
  "performAll e t w [] = ([], w)"
| "performAll e t w (job # jobs) =
     (case Perform e t w job of
        (message, w') \<Rightarrow>
          (case performAll e t w' jobs of (messages, w'') \<Rightarrow> (message # messages, w'')))"

section \<open>Theme creation: \<open>sendData\<close>, \<open>isDoneProcessing\<close>, \<open>CreateTheme\<close>\<close>

definition CreateThemeMaxRetries :: int where
  "CreateThemeMaxRetries = 3"

text \<open>
  \<open>sendData\<close>: when the request cannot be built the error is notified and the nil request is
  then dereferenced, so the call does not return.
\<close>

definition sendData :: "env \<Rightarrow> world \<Rightarrow> string \<Rightarrow> string \<Rightarrow> string \<Rightarrow> (APIThemeEvent \<times> world) outcome" where
  "sendData e w method path payload =
     (case http_NewRequest e method path payload of
        Inl x \<Rightarrow> Crashed
      | Inr req \<Rightarrow>
          (case client_Do e w req of
             (Inl x, w') \<Rightarrow> Returned (NewAPIThemeEvent e None (Some x), w')
           | (Inr resp, w') \<Rightarrow> Returned (NewAPIThemeEvent e (Some resp) None, w')))"

text \<open>The verb \<open>%d\<close> of \<open>fmt.Sprintf\<close>: a decimal numeral.\<close>

function digits :: "nat \<Rightarrow> string" where
  "digits n = (if n < 10 then [char_of (48 + n)] else digits (n div 10) @ [char_of (48 + n mod 10)])"
  by pat_completeness auto
termination
  by (relation "measure id") auto

declare digits.simps [simp del]

definition Sprintd :: "int \<Rightarrow> string" where
  "Sprintd i = (if i < 0 then CHR ''-'' # digits (nat (- i)) else digits (nat i))"

definition statusPath :: "ThemeClient \<Rightarrow> int \<Rightarrow> string" where
  "statusPath t themeId = AdminUrl (config t) @ ''/themes/'' @ Sprintd themeId @ ''.json''"

definition isDoneProcessing :: "env \<Rightarrow> ThemeClient \<Rightarrow> world \<Rightarrow> int \<Rightarrow> (bool \<times> world) outcome" where
  "isDoneProcessing e t w themeId =
     (case sendData e w ''GET'' (statusPath t themeId) [] of
        Crashed \<Rightarrow> Crashed
      | Returned (themeEvent, w') \<Rightarrow> Returned (APIThemeEvent.Previewable themeEvent, w'))"

text \<open>
  The retry loop of \<open>CreateTheme\<close> (the closure assigned to \<open>themeEvent\<close>). \<open>retries\<close> is the
  captured counter, \<open>themeEvent\<close> the named result; each pass starts a \<open>logEvent\<close> goroutine.
\<close>

function createLoop :: "env \<Rightarrow> string \<Rightarrow> string \<Rightarrow> int \<Rightarrow> bool \<Rightarrow> APIThemeEvent \<Rightarrow> world \<Rightarrow>
    (int \<times> APIThemeEvent \<times> world) outcome" where
  "createLoop e path payload retries ready themeEvent w =
     (if retries < CreateThemeMaxRetries \<and> \<not> ready then
        (case sendData e w ''POST'' path payload of
           Crashed \<Rightarrow> Crashed
         | Returned (ev, w') \<Rightarrow>
             if \<not> Successful ev
             then createLoop e path payload (retries + 1) ready ev (w'\<lparr>logged := logged w' @ [ev]\<rparr>)
             else createLoop e path payload retries True ev (w'\<lparr>logged := logged w' @ [ev]\<rparr>))
      else Returned (retries, themeEvent, w))"
  by pat_completeness auto
termination
  by (relation "measure (\<lambda>(e, path, payload, retries, ready, themeEvent, w).
        nat (CreateThemeMaxRetries - retries) + (if ready then 0 else 1))")
     (auto simp: CreateThemeMaxRetries_def)

declare createLoop.simps [simp del]

definition retriesExhausted :: "string \<Rightarrow> error" where
  "retriesExhausted zipLocation =
     Generic ([CHR 0x27] @ zipLocation @ [CHR 0x27] @ '' cannot be retrieved from Github.'')"

text \<open>Lines 188 to 205 of \<open>CreateTheme\<close>: the retry loop and the notification after it.\<close>

definition createPhase :: "env \<Rightarrow> ThemeClient \<Rightarrow> world \<Rightarrow> string \<Rightarrow> string \<Rightarrow>
    (int \<times> APIThemeEvent \<times> world) outcome" where
  "createPhase e t w name zipLocation =
     (let path = AdminUrl (config t) @ ''/themes.json'';
          payload = MarshalTheme e \<lparr>Name = name, Source = zipLocation, Role = ''unpublished'',
                                    Id = 0, Theme.Previewable = False\<rparr>
      in case createLoop e path payload 0 False zeroThemeEvent w of
           Crashed \<Rightarrow> Crashed
         | Returned (retries, themeEvent, w') \<Rightarrow>
             if retries \<ge> CreateThemeMaxRetries
             then Returned (retries, themeEvent, NotifyError (retriesExhausted zipLocation) w')
             else Returned (retries, themeEvent, w'))"

text \<open>
  The readiness poll, lines 207 to 214: the caller waits for the goroutine that runs this
  loop. It may run for ever; then the function has no value (\<open>None\<close>).
\<close>

partial_function (option) pollLoop :: "env \<Rightarrow> ThemeClient \<Rightarrow> int \<Rightarrow> world \<Rightarrow> world outcome option" where
  "pollLoop e t themeId w =
     (case isDoneProcessing e t w themeId of
        Crashed \<Rightarrow> Some Crashed
      | Returned (isDone, w') \<Rightarrow>
          if \<not> isDone then pollLoop e t themeId (w'\<lparr>slept := slept w' + 250\<rparr>)
          else Some (Returned w'))"

definition NewThemeClient :: "env \<Rightarrow> Configuration \<Rightarrow> ThemeClient" where
  "NewThemeClient e c =
     \<lparr>config = c,
      filter' = NewEventFilterFromPatternsAndFiles e (IgnoredFiles c) (Ignores c)\<rparr>"

text \<open>Lines 215 to 217: the client for the configuration that holds the new theme identifier.\<close>

definition boundClient :: "env \<Rightarrow> ThemeClient \<Rightarrow> APIThemeEvent \<Rightarrow> ThemeClient" where
  "boundClient e t themeEvent =
     NewThemeClient e
       (Initialize e ((config t)\<lparr>Configuration.ThemeId := APIThemeEvent.ThemeId themeEvent\<rparr>))"

definition CreateTheme :: "env \<Rightarrow> ThemeClient \<Rightarrow> world \<Rightarrow> string \<Rightarrow> string \<Rightarrow>
    (ThemeClient \<times> world) outcome option" where
  "CreateTheme e t w name zipLocation =
     (case createPhase e t w name zipLocation of
        Crashed \<Rightarrow> Some Crashed
      | Returned (retries, themeEvent, w') \<Rightarrow>
          (case pollLoop e t (APIThemeEvent.ThemeId themeEvent) w' of
             None \<Rightarrow> None
           | Some Crashed \<Rightarrow> Some Crashed
           | Some (Returned w'') \<Rightarrow> Some (Returned (boundClient e t themeEvent, w''))))"

text \<open>
  What \<open>sendData\<close> returns for a request that is sent after the requests \<open>h\<close>: the value of
  \<open>NewAPIThemeEvent(resp, err)\<close> on the transport's answer.
\<close>

definition themeEventOf :: "env \<Rightarrow> request list \<Rightarrow> request \<Rightarrow> APIThemeEvent" where
  "themeEventOf e h req =
     (case Transport e h req of
        Inl msg \<Rightarrow> NewAPIThemeEvent e None (Some (Generic msg))
      | Inr resp \<Rightarrow> NewAPIThemeEvent e (Some resp) None)"

text \<open>The creation request of \<open>CreateTheme\<close> and the status request of \<open>isDoneProcessing\<close>.\<close>

definition createRequest :: "env \<Rightarrow> ThemeClient \<Rightarrow> string \<Rightarrow> string \<Rightarrow> request" where
  "createRequest e t name zipLocation =
     \<lparr>Method = ''POST'', Url = AdminUrl (config t) @ ''/themes.json'',
      Payload = MarshalTheme e \<lparr>Name = name, Source = zipLocation, Role = ''unpublished'',
                                Id = 0, Theme.Previewable = False\<rparr>\<rparr>"

definition statusRequest :: "ThemeClient \<Rightarrow> int \<Rightarrow> request" where
  "statusRequest t themeId = \<lparr>Method = ''GET'', Url = statusPath t themeId, Payload = []\<rparr>"

text \<open>
  The result of the creation attempt that is made from the world \<open>w\<close> after \<open>k\<close> earlier
  attempts.
\<close>

definition attempt :: "env \<Rightarrow> ThemeClient \<Rightarrow> string \<Rightarrow> string \<Rightarrow> world \<Rightarrow> nat \<Rightarrow> APIThemeEvent" where
  "attempt e t name zipLocation w k =
     themeEventOf e (sent w @ replicate k (createRequest e t name zipLocation))
       (createRequest e t name zipLocation)"

section \<open>The limiter accessor \<open>LeakyBucket\<close>\<close>

text \<open>
  Modelled from the spec: \<open>NewLeakyBucket(size, rate, cost)\<close> constructs a limiter (sections
  4.4 and 9: a fresh one on each call) and returns the pointer to it.
\<close>

definition NewLeakyBucket :: "world \<Rightarrow> int \<Rightarrow> int \<Rightarrow> int \<Rightarrow> nat \<times> world" where
  "NewLeakyBucket w size' rate cost' =
     (length (limiters w),
      w\<lparr>limiters := limiters w @
          [\<lparr>capacity = size', refillRate = rate, acquireCost = cost'\<rparr>]\<rparr>)"

definition LeakyBucket :: "ThemeClient \<Rightarrow> world \<Rightarrow> nat \<times> world" where
  "LeakyBucket t w = NewLeakyBucket w (BucketSize (config t)) (RefillRate (config t)) 1"

section \<open>Inputs for the examples\<close>

text \<open>
  A well-behaved environment (every URL parses, every call is answered with an empty 200
  response, nothing decodes), a client with an empty configuration that ignores the key
  \<open>config.yml\<close>, and the initial world. The examples below vary them.
\<close>

definition exampleEnv :: env where
  "exampleEnv =
     \<lparr>UrlParse = (\<lambda>u. None),
      Transport = (\<lambda>h r. Inr \<lparr>StatusCode = 200, Body = [], ReadErr = None\<rparr>),
      MarshalAsset = Key,
      MarshalTheme = Name,
      UnmarshalAssets = (\<lambda>b. Inl ''unexpected end of JSON input''),
      UnmarshalAsset = (\<lambda>b. Inl ''unexpected end of JSON input''),
      NewAPIThemeEvent = (\<lambda>r x. case r of
          None \<Rightarrow> zeroThemeEvent
        | Some resp \<Rightarrow> \<lparr>Successful = (200 \<le> StatusCode resp \<and> StatusCode resp < 300),
                        ThemeId = 7, Previewable = (Body resp = ''previewable'')\<rparr>),
      NewEventFilterFromPatternsAndFiles = (\<lambda>files patterns path. path \<in> set files),
      Initialize = (\<lambda>c. c)\<rparr>"

definition exampleClient :: ThemeClient where
  "exampleClient =
     \<lparr>config = \<lparr>AdminUrl = ''https://shop/admin'', AssetPath = ''https://shop/admin/assets.json'',
                 IgnoredFiles = [''config.yml''], Ignores = [], BucketSize = 40, RefillRate = 2,
                 Proxy = [], ThemeId = 0\<rparr>,
      filter' = (\<lambda>path. path = ''config.yml'')\<rparr>"

definition emptyWorld :: world where
  "emptyWorld = \<lparr>sent = [], notified = [], logged = [], slept = 0, limiters = []\<rparr>"

section \<open>Properties of the compiled-asset pass\<close>

lemma strings_Contains_sublist: "strings_Contains s substr \<longleftrightarrow> sublist substr s"
  by (induction s) (auto simp: sublist_Cons_right)

lemma isCompiled_iff: "isCompiled a rest \<longleftrightarrow> list_ex (\<lambda>other. sublist (Key a) (Key other)) rest"
  by (induction rest) (auto simp: strings_Contains_sublist)

lemma length_retained: "length (retained xs) \<le> length xs"
  by (induction xs) auto

lemma ignoreLoop_retained:
  "n + length xs \<le> length results \<Longrightarrow>
   ignoreLoop xs results n = (rs, m) \<Longrightarrow>
   m = n + length (retained xs) \<and> take m rs = take n results @ retained xs"
proof (induction xs arbitrary: results n)
  case Nil
  then show ?case by simp
next
  case (Cons a xs)
  show ?case
  proof (cases "isCompiled a xs")
    case True
    from Cons.prems True have run: "ignoreLoop xs results n = (rs, m)"
      by simp
    from Cons.prems have len: "n + length xs \<le> length results"
      by simp
    from Cons.IH [OF len run]
    have m: "m = n + length (retained xs)"
      and t: "take m rs = take n results @ retained xs"
      by blast+
    from True have "retained (a # xs) = retained xs" by simp
    with m t show ?thesis by (simp only:)
  next
    case False
    from Cons.prems False have run: "ignoreLoop xs (results[n := a]) (n + 1) = (rs, m)"
      by simp
    from Cons.prems have len: "(n + 1) + length xs \<le> length (results[n := a])"
      by simp
    from Cons.IH [OF len run]
    have m: "m = n + 1 + length (retained xs)"
      and t: "take m rs = take (n + 1) (results[n := a]) @ retained xs"
      by blast+
    from Cons.prems have "n < length results" by simp
    then have "take (n + 1) (results[n := a]) = take n results @ [a]"
      by (simp add: take_Suc_conv_app_nth)
    moreover from False have "retained (a # xs) = a # retained xs" by simp
    ultimately show ?thesis using m t by simp
  qed
qed

lemma ignoreCompiledAssets_retained: "ignoreCompiledAssets xs = retained xs"
proof -
  obtain rs m where run: "ignoreLoop xs (replicate (length xs) zeroAsset) 0 = (rs, m)"
    by (cases "ignoreLoop xs (replicate (length xs) zeroAsset) 0")
  have "0 + length xs \<le> length (replicate (length xs) zeroAsset)" by simp
  from ignoreLoop_retained [OF this run]
  have "take m rs = take 0 (replicate (length xs) zeroAsset) @ retained xs"
    by (rule conjunct2)
  then have "take m rs = retained xs" by simp
  with run show ?thesis by (simp add: ignoreCompiledAssets_def)
qed

lemma set_retained: "set (retained xs) \<subseteq> set xs"
  by (induction xs) auto

lemma subseq_retained: "subseq (retained xs) xs"
  by (induction xs) auto

lemma retained_nth:
  "distinct xs \<Longrightarrow> i < length xs \<Longrightarrow>
   (xs ! i \<in> set (retained xs)) = (\<not> isCompiled (xs ! i) (drop (Suc i) xs))"
proof (induction xs arbitrary: i)
  case Nil
  then show ?case by simp
next
  case (Cons a xs)
  from Cons.prems have a: "a \<notin> set xs" and d: "distinct xs" by simp_all
  from a set_retained [of xs] have ar: "a \<notin> set (retained xs)" by blast
  show ?case
  proof (cases i)
    case 0
    with ar show ?thesis by simp
  next
    case (Suc k)
    with Cons.prems have k: "k < length xs" by simp
    with a have "xs ! k \<noteq> a" by (metis nth_mem)
    with Cons.IH [OF d k] Suc show ?thesis by simp
  qed
qed

lemma isCompiled_strict:
  "\<forall>other \<in> set rest. Key other \<noteq> Key a \<Longrightarrow>
   isCompiled a rest = list_ex (\<lambda>other. strictSubstring (Key a) (Key other)) rest"
  by (induction rest) (auto simp: strictSubstring_def)

lemma set_drop_nth:
  "(x \<in> set (drop n xs)) = (\<exists>j. n \<le> j \<and> j < length xs \<and> x = xs ! j)"
proof
  assume "x \<in> set (drop n xs)"
  then obtain i where i: "i < length (drop n xs)" "drop n xs ! i = x"
    by (auto simp: in_set_conv_nth)
  then have "n \<le> n + i \<and> n + i < length xs \<and> x = xs ! (n + i)" by auto
  then show "\<exists>j. n \<le> j \<and> j < length xs \<and> x = xs ! j" by blast
next
  assume "\<exists>j. n \<le> j \<and> j < length xs \<and> x = xs ! j"
  then obtain j where j: "n \<le> j" "j < length xs" "x = xs ! j" by blast
  then have "j - n < length (drop n xs)" "drop n xs ! (j - n) = x" by auto
  then show "x \<in> set (drop n xs)" by (metis nth_mem)
qed

lemma isCompiled_later:
  "i < j \<Longrightarrow> j < length xs \<Longrightarrow> strings_Contains (Key (xs ! j)) (Key (xs ! i)) \<Longrightarrow>
   isCompiled (xs ! i) (drop (Suc i) xs)"
proof -
  assume ij: "i < j" and j: "j < length xs"
    and c: "strings_Contains (Key (xs ! j)) (Key (xs ! i))"
  from ij j have "Suc i \<le> j \<and> j < length xs \<and> xs ! j = xs ! j" by simp
  then have "xs ! j \<in> set (drop (Suc i) xs)"
    unfolding set_drop_nth by blast
  with c have "list_ex (\<lambda>other. sublist (Key (xs ! i)) (Key other)) (drop (Suc i) xs)"
    by (auto simp: list_ex_iff strings_Contains_sublist)
  then show ?thesis by (simp add: isCompiled_iff)
qed

lemma retained_last: "xs \<noteq> [] \<Longrightarrow> last xs \<in> set (retained xs)"
  by (induction xs) auto

lemma later_keys_differ:
  "distinct (map Key xs) \<Longrightarrow> i < length xs \<Longrightarrow>
   \<forall>other \<in> set (drop (Suc i) xs). Key other \<noteq> Key (xs ! i)"
proof
  fix other
  assume d: "distinct (map Key xs)" and i: "i < length xs"
    and o: "other \<in> set (drop (Suc i) xs)"
  from o obtain j where j: "Suc i \<le> j" "j < length xs" "other = xs ! j"
    by (auto simp: set_drop_nth)
  from j have "j \<noteq> i" by simp
  from d i j(2) have "(map Key xs ! j = map Key xs ! i) = (j = i)"
    by (intro nth_eq_iff_index_eq) simp_all
  with \<open>j \<noteq> i\<close> i j show "Key other \<noteq> Key (xs ! i)" by simp
qed

lemma key_mem_retained:
  assumes d: "distinct (map Key xs)" and a: "a \<in> set xs"
  shows "(Key a \<in> set (map Key (retained xs))) = (a \<in> set (retained xs))"
proof
  assume "Key a \<in> set (map Key (retained xs))"
  then obtain b where b: "b \<in> set (retained xs)" "Key b = Key a" by auto
  with set_retained [of xs] have "b \<in> set xs" by blast
  with d a b(2) have "b = a" by (meson distinct_map inj_on_def)
  with b show "a \<in> set (retained xs)" by simp
next
  assume "a \<in> set (retained xs)"
  then show "Key a \<in> set (map Key (retained xs))" by simp
qed

text \<open>
  Claim C1, as the code has it. For a listing sorted ascending by key with pairwise-distinct
  keys, \<open>ignoreCompiledAssets\<close> keeps the relative order of what it retains; the asset at
  position \<open>i\<close> is retained exactly when its key is not a strict substring of the key of
  an asset at a later position; hence of a pair whose substring key comes first the
  earlier asset is never in the output; and the last asset is always retained.
\<close>

theorem ignoreCompiledAssets_suppresses:
  assumes s: "sorted (map Key assets)" and d: "distinct (map Key assets)"
  shows "subseq (ignoreCompiledAssets assets) assets \<and>
    (\<forall>i < length assets.
       (Key (assets ! i) \<in> set (map Key (ignoreCompiledAssets assets))) =
       (\<not> list_ex (\<lambda>other. strictSubstring (Key (assets ! i)) (Key other))
              (drop (Suc i) assets))) \<and>
    (\<forall>i j. i < j \<and> j < length assets \<and>
        strings_Contains (Key (assets ! j)) (Key (assets ! i)) \<longrightarrow>
        Key (assets ! i) \<notin> set (map Key (ignoreCompiledAssets assets))) \<and>
    (assets \<noteq> [] \<longrightarrow> Key (last assets) \<in> set (map Key (ignoreCompiledAssets assets)))"
proof -
  from d have da: "distinct assets" by (simp add: distinct_map)
  have mem: "(Key (assets ! i) \<in> set (map Key (retained assets))) =
      (\<not> isCompiled (assets ! i) (drop (Suc i) assets))" if i: "i < length assets" for i
    using key_mem_retained [OF d, of "assets ! i"] retained_nth [OF da i] i by simp
  have order: "subseq (ignoreCompiledAssets assets) assets"
    by (simp add: ignoreCompiledAssets_retained subseq_retained)
  have exact: "(Key (assets ! i) \<in> set (map Key (ignoreCompiledAssets assets))) =
       (\<not> list_ex (\<lambda>other. strictSubstring (Key (assets ! i)) (Key other))
              (drop (Suc i) assets))" if i: "i < length assets" for i
    using mem [OF i] isCompiled_strict [OF later_keys_differ [OF d i]]
    by (simp add: ignoreCompiledAssets_retained)
  have pair: "Key (assets ! i) \<notin> set (map Key (ignoreCompiledAssets assets))"
    if "i < j" "j < length assets" "strings_Contains (Key (assets ! j)) (Key (assets ! i))" for i j
  proof -
    from that have i: "i < length assets" by simp
    from isCompiled_later [OF that] mem [OF i] show ?thesis
      by (simp add: ignoreCompiledAssets_retained)
  qed
  have lst: "Key (last assets) \<in> set (map Key (ignoreCompiledAssets assets))" if "assets \<noteq> []"
    using retained_last [OF that] by (simp add: ignoreCompiledAssets_retained)
  from order exact pair lst show ?thesis by blast
qed

theorem ignoreCompiledAssets_suppresses_witness:
  "sorted (map Key [\<lparr>Key = ''app'', Value = [], Attachment = []\<rparr>,
                    \<lparr>Key = ''app.min'', Value = [], Attachment = []\<rparr>]) \<and>
   distinct (map Key [\<lparr>Key = ''app'', Value = [], Attachment = []\<rparr>,
                      \<lparr>Key = ''app.min'', Value = [], Attachment = []\<rparr>]) \<and>
   subseq (ignoreCompiledAssets [\<lparr>Key = ''app'', Value = [], Attachment = []\<rparr>,
                                 \<lparr>Key = ''app.min'', Value = [], Attachment = []\<rparr>])
          [\<lparr>Key = ''app'', Value = [], Attachment = []\<rparr>,
           \<lparr>Key = ''app.min'', Value = [], Attachment = []\<rparr>] \<and>
   ''app'' \<notin> set (map Key (ignoreCompiledAssets
          [\<lparr>Key = ''app'', Value = [], Attachment = []\<rparr>,
           \<lparr>Key = ''app.min'', Value = [], Attachment = []\<rparr>])) \<and>
   ''app.min'' \<in> set (map Key (ignoreCompiledAssets
          [\<lparr>Key = ''app'', Value = [], Attachment = []\<rparr>,
           \<lparr>Key = ''app.min'', Value = [], Attachment = []\<rparr>]))"
proof -
  let ?L = "[\<lparr>Key = ''app'', Value = [], Attachment = []\<rparr>,
             \<lparr>Key = ''app.min'', Value = [], Attachment = []\<rparr>]"
  have s: "sorted (map Key ?L)" by simp
  have d: "distinct (map Key ?L)" by simp
  have c: "(0::nat) < 1 \<and> 1 < length ?L \<and> strings_Contains (Key (?L ! 1)) (Key (?L ! 0))"
    by simp
  note t = ignoreCompiledAssets_suppresses [OF s d]
  from t have order: "subseq (ignoreCompiledAssets ?L) ?L" by blast
  from t c have gone: "Key (?L ! 0) \<notin> set (map Key (ignoreCompiledAssets ?L))" by blast
  from t have kept: "Key (last ?L) \<in> set (map Key (ignoreCompiledAssets ?L))" by blast
  from gone have g: "''app'' \<notin> set (map Key (ignoreCompiledAssets ?L))" by simp
  from kept have k: "''app.min'' \<in> set (map Key (ignoreCompiledAssets ?L))" by simp
  from s d order g k show ?thesis by blast
qed

text \<open>
  The second sentence of claim C1 fails: in the sorted listing \<open>ab, b\<close> the key \<open>b\<close> is a
  substring of \<open>ab\<close> but sorts after it, and the output holds both.
\<close>

theorem ignoreCompiledAssets_pair_counterexample:
  "sorted (map Key [\<lparr>Key = ''ab'', Value = [], Attachment = []\<rparr>,
                    \<lparr>Key = ''b'', Value = [], Attachment = []\<rparr>]) \<and>
   distinct (map Key [\<lparr>Key = ''ab'', Value = [], Attachment = []\<rparr>,
                      \<lparr>Key = ''b'', Value = [], Attachment = []\<rparr>]) \<and>
   strings_Contains ''ab'' ''b'' \<and>
   map Key (ignoreCompiledAssets [\<lparr>Key = ''ab'', Value = [], Attachment = []\<rparr>,
                                  \<lparr>Key = ''b'', Value = [], Attachment = []\<rparr>]) = [''ab'', ''b'']"
  by (simp add: ignoreCompiledAssets_def zeroAsset_def)

text \<open>A chain loses both members of a pair: of \<open>a, ab, abc\<close> only \<open>abc\<close> is left.\<close>

lemma ignoreCompiledAssets_chain:
  "map Key (ignoreCompiledAssets [\<lparr>Key = ''a'', Value = [], Attachment = []\<rparr>,
                                  \<lparr>Key = ''ab'', Value = [], Attachment = []\<rparr>,
                                  \<lparr>Key = ''abc'', Value = [], Attachment = []\<rparr>]) = [''abc'']"
  by (simp add: ignoreCompiledAssets_def zeroAsset_def)

section \<open>Dispatch of asset events\<close>

text \<open>
  Claim C5. For every AssetEvent whose asset key is matched by the ignore filter, \<open>Perform\<close>
  returns the no-op result at once and leaves the world as it was: no request is sent.
\<close>

theorem Perform_ignored:
  "filter' t (Key (EventAsset asset)) \<Longrightarrow> Perform e t w asset = (NoOpEvent, w)"
  by (simp add: Perform_def)

theorem Perform_ignored_witness:
  "filter' exampleClient
     (Key (EventAsset \<lparr>EventAsset = \<lparr>Key = ''config.yml'', Value = ''a: 1'', Attachment = []\<rparr>,
                       EventType = Update\<rparr>)) \<and>
   Perform exampleEnv exampleClient emptyWorld
     \<lparr>EventAsset = \<lparr>Key = ''config.yml'', Value = ''a: 1'', Attachment = []\<rparr>,
      EventType = Update\<rparr> = (NoOpEvent, emptyWorld)"
proof -
  let ?ev = "\<lparr>EventAsset = \<lparr>Key = ''config.yml'', Value = ''a: 1'', Attachment = []\<rparr>,
             EventType = Update\<rparr>"
  have h: "filter' exampleClient (Key (EventAsset ?ev))"
    by (simp add: exampleClient_def)
  from h Perform_ignored [OF h] show ?thesis by blast
qed

text \<open>
  Claim C6, as the code has it. For every AssetEvent that is not ignored: when the request
  can be built (\<open>http.NewRequest\<close> accepts the configured asset path), \<open>Perform\<close> makes
  exactly one HTTP call, the world afterwards being the world before with one request
  added, whose verb is \<open>PUT\<close> for an Update event and \<open>DELETE\<close> for a Remove event (\<open>GET\<close>
  for any other kind), whose URL is the asset path and whose body is the encoding of the
  event's asset, and the result carries the answer to that call; when the request cannot
  be built, \<open>Perform\<close> makes no call and the result carries the error.
\<close>

theorem Perform_one_call:
  assumes "\<not> filter' t (Key (EventAsset asset))"
  shows "(UrlParse e (AssetPath (config t)) = None \<longrightarrow>
      snd (Perform e t w asset) =
        w\<lparr>sent := sent w @
           [\<lparr>Method = (if EventType asset = Update then ''PUT''
                        else if EventType asset = Remove then ''DELETE'' else ''GET''),
             Url = AssetPath (config t),
             Payload = MarshalAsset e (EventAsset asset)\<rparr>]\<rparr> \<and>
      fst (Perform e t w asset) =
        (case Transport e (sent w)
           \<lparr>Method = (if EventType asset = Update then ''PUT''
                        else if EventType asset = Remove then ''DELETE'' else ''GET''),
            Url = AssetPath (config t),
            Payload = MarshalAsset e (EventAsset asset)\<rparr> of
           Inl msg \<Rightarrow> APIAssetEvent None asset (Some (Generic msg))
         | Inr resp \<Rightarrow> APIAssetEvent (Some resp) asset None)) \<and>
    (\<forall>msg. UrlParse e (AssetPath (config t)) = Some msg \<longrightarrow>
      Perform e t w asset = (APIAssetEvent None asset (Some (Generic msg)), w))"
  using assms
  by (simp add: Perform_def request_def http_NewRequest_def client_Do_def processResponse_def
      Let_def split: sum.splits)

theorem Perform_one_call_witness:
  "sent (snd (Perform exampleEnv exampleClient emptyWorld
     \<lparr>EventAsset = \<lparr>Key = ''a.css'', Value = ''p {}'', Attachment = []\<rparr>, EventType = Update\<rparr>)) =
     [\<lparr>Method = ''PUT'', Url = ''https://shop/admin/assets.json'', Payload = ''a.css''\<rparr>] \<and>
   sent (snd (Perform exampleEnv exampleClient emptyWorld
     \<lparr>EventAsset = \<lparr>Key = ''a.css'', Value = ''p {}'', Attachment = []\<rparr>, EventType = Remove\<rparr>)) =
     [\<lparr>Method = ''DELETE'', Url = ''https://shop/admin/assets.json'', Payload = ''a.css''\<rparr>] \<and>
   fst (Perform exampleEnv exampleClient emptyWorld
     \<lparr>EventAsset = \<lparr>Key = ''a.css'', Value = ''p {}'', Attachment = []\<rparr>, EventType = Update\<rparr>) =
     APIAssetEvent (Some \<lparr>StatusCode = 200, Body = [], ReadErr = None\<rparr>)
       \<lparr>EventAsset = \<lparr>Key = ''a.css'', Value = ''p {}'', Attachment = []\<rparr>, EventType = Update\<rparr>
       None \<and>
   Perform (exampleEnv\<lparr>UrlParse := (\<lambda>u. Some ''invalid URL escape'')\<rparr>) exampleClient emptyWorld
     \<lparr>EventAsset = \<lparr>Key = ''a.css'', Value = ''p {}'', Attachment = []\<rparr>, EventType = Remove\<rparr> =
     (APIAssetEvent None
        \<lparr>EventAsset = \<lparr>Key = ''a.css'', Value = ''p {}'', Attachment = []\<rparr>, EventType = Remove\<rparr>
        (Some (Generic ''invalid URL escape'')),
      emptyWorld)"
proof -
  let ?a = "\<lparr>Key = ''a.css'', Value = ''p {}'', Attachment = []\<rparr>"
  let ?bad = "exampleEnv\<lparr>UrlParse := (\<lambda>u. Some ''invalid URL escape'')\<rparr>"
  have u: "UrlParse exampleEnv (AssetPath (config exampleClient)) = None"
    by (simp add: exampleEnv_def)
  have b: "UrlParse ?bad (AssetPath (config exampleClient)) = Some ''invalid URL escape''"
    by simp
  have n1: "\<not> filter' exampleClient (Key (EventAsset \<lparr>EventAsset = ?a, EventType = Update\<rparr>))"
    by (simp add: exampleClient_def)
  have n2: "\<not> filter' exampleClient (Key (EventAsset \<lparr>EventAsset = ?a, EventType = Remove\<rparr>))"
    by (simp add: exampleClient_def)
  from Perform_one_call [OF n1, of exampleEnv emptyWorld] u
  have put: "snd (Perform exampleEnv exampleClient emptyWorld \<lparr>EventAsset = ?a, EventType = Update\<rparr>) =
      emptyWorld\<lparr>sent := sent emptyWorld @
        [\<lparr>Method = (if EventType \<lparr>EventAsset = ?a, EventType = Update\<rparr> = Update then ''PUT''
                     else if EventType \<lparr>EventAsset = ?a, EventType = Update\<rparr> = Remove
                       then ''DELETE'' else ''GET''),
          Url = AssetPath (config exampleClient),
          Payload = MarshalAsset exampleEnv (EventAsset \<lparr>EventAsset = ?a, EventType = Update\<rparr>)\<rparr>]\<rparr>"
    and res: "fst (Perform exampleEnv exampleClient emptyWorld \<lparr>EventAsset = ?a, EventType = Update\<rparr>) =
      (case Transport exampleEnv (sent emptyWorld)
         \<lparr>Method = (if EventType \<lparr>EventAsset = ?a, EventType = Update\<rparr> = Update then ''PUT''
                      else if EventType \<lparr>EventAsset = ?a, EventType = Update\<rparr> = Remove
                        then ''DELETE'' else ''GET''),
          Url = AssetPath (config exampleClient),
          Payload = MarshalAsset exampleEnv (EventAsset \<lparr>EventAsset = ?a, EventType = Update\<rparr>)\<rparr> of
         Inl msg \<Rightarrow> APIAssetEvent None \<lparr>EventAsset = ?a, EventType = Update\<rparr> (Some (Generic msg))
       | Inr resp \<Rightarrow> APIAssetEvent (Some resp) \<lparr>EventAsset = ?a, EventType = Update\<rparr> None)"
    by blast+
  from Perform_one_call [OF n2, of exampleEnv emptyWorld] u
  have del: "snd (Perform exampleEnv exampleClient emptyWorld \<lparr>EventAsset = ?a, EventType = Remove\<rparr>) =
      emptyWorld\<lparr>sent := sent emptyWorld @
        [\<lparr>Method = (if EventType \<lparr>EventAsset = ?a, EventType = Remove\<rparr> = Update then ''PUT''
                     else if EventType \<lparr>EventAsset = ?a, EventType = Remove\<rparr> = Remove
                       then ''DELETE'' else ''GET''),
          Url = AssetPath (config exampleClient),
          Payload = MarshalAsset exampleEnv (EventAsset \<lparr>EventAsset = ?a, EventType = Remove\<rparr>)\<rparr>]\<rparr>"
    by blast
  from Perform_one_call [OF n2, of ?bad emptyWorld] b
  have none: "Perform ?bad exampleClient emptyWorld \<lparr>EventAsset = ?a, EventType = Remove\<rparr> =
      (APIAssetEvent None \<lparr>EventAsset = ?a, EventType = Remove\<rparr>
         (Some (Generic ''invalid URL escape'')), emptyWorld)"
    by blast
  from put have 1: "sent (snd (Perform exampleEnv exampleClient emptyWorld
        \<lparr>EventAsset = ?a, EventType = Update\<rparr>)) =
      [\<lparr>Method = ''PUT'', Url = ''https://shop/admin/assets.json'', Payload = ''a.css''\<rparr>]"
    by (simp add: exampleEnv_def exampleClient_def emptyWorld_def Update_def Remove_def)
  from del have 2: "sent (snd (Perform exampleEnv exampleClient emptyWorld
        \<lparr>EventAsset = ?a, EventType = Remove\<rparr>)) =
      [\<lparr>Method = ''DELETE'', Url = ''https://shop/admin/assets.json'', Payload = ''a.css''\<rparr>]"
    by (simp add: exampleEnv_def exampleClient_def emptyWorld_def Update_def Remove_def)
  from res have 3: "fst (Perform exampleEnv exampleClient emptyWorld
        \<lparr>EventAsset = ?a, EventType = Update\<rparr>) =
      APIAssetEvent (Some \<lparr>StatusCode = 200, Body = [], ReadErr = None\<rparr>)
        \<lparr>EventAsset = ?a, EventType = Update\<rparr> None"
    by (simp add: exampleEnv_def)
  from 1 2 3 none show ?thesis by blast
qed

text \<open>
  An event of a kind other than Update and Remove leaves the verb empty, which is sent as
  a \<open>GET\<close>.
\<close>

lemma Perform_other_kind:
  "sent (snd (Perform exampleEnv exampleClient emptyWorld
     \<lparr>EventAsset = \<lparr>Key = ''a.css'', Value = [], Attachment = []\<rparr>, EventType = 2\<rparr>)) =
     [\<lparr>Method = ''GET'', Url = ''https://shop/admin/assets.json'', Payload = ''a.css''\<rparr>]"
  by (simp add: Perform_def request_def http_NewRequest_def client_Do_def Let_def
      exampleEnv_def exampleClient_def emptyWorld_def Update_def Remove_def)

text \<open>
  Claim C6 as stated fails where the request cannot be built: \<open>request\<close> returns the error
  of \<open>http.NewRequest\<close> before \<open>client.Do\<close>, so a non-ignored Update event makes no call.
\<close>

theorem Perform_no_call_counterexample:
  "\<not> filter' exampleClient
       (Key (EventAsset \<lparr>EventAsset = \<lparr>Key = ''a.css'', Value = [], Attachment = []\<rparr>,
                         EventType = Update\<rparr>)) \<and>
   sent (snd (Perform
       (exampleEnv\<lparr>UrlParse :=
          (\<lambda>u. if u = ''https://shop/%zz/assets.json'' then Some ''invalid URL escape'' else None)\<rparr>)
       (exampleClient\<lparr>config := (config exampleClient)\<lparr>AssetPath := ''https://shop/%zz/assets.json''\<rparr>\<rparr>)
       emptyWorld
       \<lparr>EventAsset = \<lparr>Key = ''a.css'', Value = [], Attachment = []\<rparr>,
        EventType = Update\<rparr>)) = []"
  by (simp add: Perform_def request_def http_NewRequest_def client_Do_def Let_def
      exampleEnv_def exampleClient_def emptyWorld_def Update_def Remove_def)

lemma length_performAll: "length (fst (performAll e t w jobs)) = length jobs"
  by (induction jobs arbitrary: w) (simp_all add: case_prod_beta)

lemma Process_open: "Process e t w (map Job jobs) =
    (map SendMessage (fst (performAll e t w jobs)), snd (performAll e t w jobs))"
  by (induction jobs arbitrary: w) (simp_all add: case_prod_beta)

lemma Process_closed: "Process e t w (map Job jobs @ ChannelClosed # later) =
    (map SendMessage (fst (performAll e t w jobs)) @ [CloseMessages, SendDone True],
     snd (performAll e t w jobs))"
  by (induction jobs arbitrary: w) (simp_all add: case_prod_beta)

text \<open>
  Claim C4. For a finite stream of jobs, \<open>Process\<close> sends one message per job, the result of
  \<open>Perform\<close> on that job, in the order of the jobs. Once the stream is closed it closes
  \<open>messages\<close> and then signals \<open>done\<close>, after the last message and as its last action;
  while the stream is open it neither closes \<open>messages\<close> nor signals \<open>done\<close>.
\<close>

theorem Process_one_result_per_event:
  "Process e t w (map Job jobs @ ChannelClosed # later) =
     (map SendMessage (fst (performAll e t w jobs)) @ [CloseMessages, SendDone True],
      snd (performAll e t w jobs)) \<and>
   length (fst (performAll e t w jobs)) = length jobs \<and>
   Process e t w (map Job jobs) =
     (map SendMessage (fst (performAll e t w jobs)), snd (performAll e t w jobs))"
  by (simp add: Process_open Process_closed length_performAll)

theorem Process_one_result_per_event_witness:
  "fst (Process exampleEnv exampleClient emptyWorld
     [Job \<lparr>EventAsset = \<lparr>Key = ''config.yml'', Value = [], Attachment = []\<rparr>, EventType = Update\<rparr>,
      Job \<lparr>EventAsset = \<lparr>Key = ''a.css'', Value = [], Attachment = []\<rparr>, EventType = Remove\<rparr>,
      ChannelClosed]) =
   [SendMessage NoOpEvent,
    SendMessage (APIAssetEvent (Some \<lparr>StatusCode = 200, Body = [], ReadErr = None\<rparr>)
      \<lparr>EventAsset = \<lparr>Key = ''a.css'', Value = [], Attachment = []\<rparr>, EventType = Remove\<rparr> None),
    CloseMessages, SendDone True]"
  using Process_one_result_per_event [of exampleEnv exampleClient emptyWorld
      "[\<lparr>EventAsset = \<lparr>Key = ''config.yml'', Value = [], Attachment = []\<rparr>, EventType = Update\<rparr>,
        \<lparr>EventAsset = \<lparr>Key = ''a.css'', Value = [], Attachment = []\<rparr>, EventType = Remove\<rparr>]" "[]"]
  by (simp add: Perform_def request_def http_NewRequest_def client_Do_def processResponse_def
      Let_def exampleEnv_def exampleClient_def emptyWorld_def Update_def Remove_def)

section \<open>Fetching and listing assets\<close>

text \<open>
  Claim C7, as the code has it. \<open>Asset\<close> tests \<open>resp.err\<close> before \<open>resp.code\<close>. A single-asset
  fetch whose response was read without error and has a code of 400 or more fails with the
  typed \<open>NonFatalNetworkError\<close> carrying that code, the verb \<open>GET\<close> and the message
  \<open>not found\<close>; a fetch whose request cannot be built, whose round trip fails or whose
  response body cannot be read (whatever its code) fails with the library's own (generic)
  error.
\<close>

theorem Asset_error_kinds:
  "(\<forall>msg. UrlParse e
        (AssetPath (config t) @ ''?fields=key,attachment,value'' @ ''&asset[key]='' @ filename) =
        Some msg \<longrightarrow>
      fst (Asset e t w filename) = Inl (Generic msg)) \<and>
   (UrlParse e
        (AssetPath (config t) @ ''?fields=key,attachment,value'' @ ''&asset[key]='' @ filename) =
        None \<longrightarrow>
     (\<forall>resp. Transport e (sent w)
            \<lparr>Method = ''GET'',
             Url = AssetPath (config t) @ ''?fields=key,attachment,value'' @
                   ''&asset[key]='' @ filename,
             Payload = []\<rparr> = Inr resp \<and> ReadErr resp = None \<and> StatusCode resp \<ge> 400 \<longrightarrow>
          fst (Asset e t w filename) =
            Inl (NonFatalNetworkError (StatusCode resp) ''GET'' ''not found'')) \<and>
     (\<forall>msg. Transport e (sent w)
            \<lparr>Method = ''GET'',
             Url = AssetPath (config t) @ ''?fields=key,attachment,value'' @
                   ''&asset[key]='' @ filename,
             Payload = []\<rparr> = Inl msg \<longrightarrow>
          fst (Asset e t w filename) = Inl (Generic msg)) \<and>
     (\<forall>resp msg. Transport e (sent w)
            \<lparr>Method = ''GET'',
             Url = AssetPath (config t) @ ''?fields=key,attachment,value'' @
                   ''&asset[key]='' @ filename,
             Payload = []\<rparr> = Inr resp \<and> ReadErr resp = Some msg \<longrightarrow>
          fst (Asset e t w filename) = Inl (Generic msg)))"
  by (simp add: Asset_def query_def http_NewRequest_def client_Do_def Let_def)

theorem Asset_error_kinds_witness:
  "fst (Asset (exampleEnv\<lparr>Transport :=
                  (\<lambda>h r. Inr \<lparr>StatusCode = 404, Body = ''{}'', ReadErr = None\<rparr>)\<rparr>)
         exampleClient emptyWorld ''a.css'') = Inl (NonFatalNetworkError 404 ''GET'' ''not found'') \<and>
   fst (Asset (exampleEnv\<lparr>Transport := (\<lambda>h r. Inl ''connection refused'')\<rparr>)
         exampleClient emptyWorld ''a.css'') = Inl (Generic ''connection refused'') \<and>
   fst (Asset (exampleEnv\<lparr>UrlParse := (\<lambda>u. Some ''invalid URL escape'')\<rparr>)
         exampleClient emptyWorld ''a.css'') = Inl (Generic ''invalid URL escape'')"
proof -
  let ?e1 = "exampleEnv\<lparr>Transport :=
      (\<lambda>h r. Inr \<lparr>StatusCode = 404, Body = ''{}'', ReadErr = None\<rparr>)\<rparr>"
  let ?e2 = "exampleEnv\<lparr>Transport := (\<lambda>h r. Inl ''connection refused'')\<rparr>"
  let ?e3 = "exampleEnv\<lparr>UrlParse := (\<lambda>u. Some ''invalid URL escape'')\<rparr>"
  let ?url = "AssetPath (config exampleClient) @ ''?fields=key,attachment,value'' @
      ''&asset[key]='' @ ''a.css''"
  have p1: "UrlParse ?e1 ?url = None" by (simp add: exampleEnv_def)
  have p2: "UrlParse ?e2 ?url = None" by (simp add: exampleEnv_def)
  have p3: "UrlParse ?e3 ?url = Some ''invalid URL escape''" by simp
  have r1: "Transport ?e1 (sent emptyWorld) \<lparr>Method = ''GET'', Url = ?url, Payload = []\<rparr> =
      Inr \<lparr>StatusCode = 404, Body = ''{}'', ReadErr = None\<rparr> \<and>
      ReadErr \<lparr>StatusCode = 404, Body = ''{}'', ReadErr = None\<rparr> = None \<and>
      StatusCode \<lparr>StatusCode = 404, Body = ''{}'', ReadErr = None\<rparr> \<ge> 400"
    by simp
  have r2: "Transport ?e2 (sent emptyWorld) \<lparr>Method = ''GET'', Url = ?url, Payload = []\<rparr> =
      Inl ''connection refused''"
    by simp
  from Asset_error_kinds [of ?e1 exampleClient "''a.css''" emptyWorld] p1 r1
  have a: "fst (Asset ?e1 exampleClient emptyWorld ''a.css'') =
      Inl (NonFatalNetworkError
        (StatusCode \<lparr>StatusCode = 404, Body = ''{}'', ReadErr = None\<rparr>) ''GET'' ''not found'')"
    by blast
  from Asset_error_kinds [of ?e2 exampleClient "''a.css''" emptyWorld] p2 r2
  have b: "fst (Asset ?e2 exampleClient emptyWorld ''a.css'') = Inl (Generic ''connection refused'')"
    by blast
  from Asset_error_kinds [of ?e3 exampleClient "''a.css''" emptyWorld] p3
  have c: "fst (Asset ?e3 exampleClient emptyWorld ''a.css'') = Inl (Generic ''invalid URL escape'')"
    by blast
  from a b c show ?thesis by simp
qed

text \<open>
  Claim C7 as stated fails for a response with code 404 whose body cannot be read: the
  fetch fails with the generic read error, not with the typed error.
\<close>

theorem Asset_unread_404_counterexample:
  "fst (Asset (exampleEnv\<lparr>Transport :=
                  (\<lambda>h r. Inr \<lparr>StatusCode = 404, Body = [], ReadErr = Some ''unexpected EOF''\<rparr>)\<rparr>)
         exampleClient emptyWorld ''a.css'') = Inl (Generic ''unexpected EOF'') \<and>
   fst (Asset (exampleEnv\<lparr>Transport :=
                  (\<lambda>h r. Inr \<lparr>StatusCode = 404, Body = [], ReadErr = Some ''unexpected EOF''\<rparr>)\<rparr>)
         exampleClient emptyWorld ''a.css'') \<noteq> Inl (NonFatalNetworkError 404 ''GET'' ''not found'')"
  by (simp add: Asset_def query_def http_NewRequest_def client_Do_def Let_def
      exampleEnv_def exampleClient_def emptyWorld_def)

text \<open>
  The listing goroutine. When the response was read without error and decodes, it sends
  the decoded assets sorted by key and with the compiled assets removed, then closes
  both channels; when the body does not decode it sends no asset.
\<close>

lemma AssetList_success:
  assumes "query e t w (\<lambda>path. path) = (resp, w')" and "err resp = None"
    and "UnmarshalAssets e (body resp) = Inr m"
  shows "AssetList e t w =
    (map SendResult (ignoreCompiledAssets
        (sort_ByAsset (case m ''assets'' of None \<Rightarrow> [] | Some xs \<Rightarrow> xs))) @
     [CloseResults, CloseErrs], w')"
  using assms by (simp add: AssetList_def)

lemma AssetList_undecodable:
  assumes "query e t w (\<lambda>path. path) = (resp, w')"
    and "UnmarshalAssets e (body resp) = Inl msg"
  shows "\<forall>a. SendResult a \<notin> set (fst (AssetList e t w))"
  using assms by (auto simp: AssetList_def split: option.splits)

text \<open>
  Claim C9 at its failing input. The response body was read up to an error (\<open>ReadAll\<close>
  returns the bytes read together with the error) and the bytes decode: the goroutine
  reports the error and, having no \<open>return\<close> after that send, goes on to send the decoded
  asset and to close both channels.
\<close>

theorem AssetList_read_error_still_lists:
  "fst (AssetList
     (exampleEnv\<lparr>
        Transport := (\<lambda>h r. Inr \<lparr>StatusCode = 200, Body = ''{assets:[{key:a.css}]}'',
                                  ReadErr = Some ''unexpected EOF''\<rparr>),
        UnmarshalAssets := (\<lambda>b. if b = ''{assets:[{key:a.css}]}''
           then Inr [''assets'' \<mapsto> [\<lparr>Key = ''a.css'', Value = [], Attachment = []\<rparr>]]
           else Inl ''unexpected end of JSON input'')\<rparr>)
     exampleClient emptyWorld) =
   [SendErr (Generic ''unexpected EOF''),
    SendResult \<lparr>Key = ''a.css'', Value = [], Attachment = []\<rparr>,
    CloseResults, CloseErrs]"
  by (simp add: AssetList_def query_def http_NewRequest_def client_Do_def Let_def
      exampleEnv_def exampleClient_def emptyWorld_def sort_ByAsset_def
      ignoreCompiledAssets_def zeroAsset_def)

text \<open>
  \<open>AssetListSync\<close> returns the assets of a listing that succeeds, in the order they were
  sent; on a listing that fails it never returns.
\<close>

lemma receiveResults_results:
  "receiveResults (map SendResult assets @ CloseResults # rest) acc = Some (acc @ assets)"
  by (induction assets arbitrary: acc) auto

lemma AssetListSync_success:
  assumes "query e t w (\<lambda>path. path) = (resp, w')" and "err resp = None"
    and "UnmarshalAssets e (body resp) = Inr m"
  shows "fst (AssetListSync e t w) =
    Some (ignoreCompiledAssets (sort_ByAsset (case m ''assets'' of None \<Rightarrow> [] | Some xs \<Rightarrow> xs)))"
  using AssetList_success [OF assms]
    receiveResults_results [of _ "[CloseErrs]" "[]"]
  by (simp add: AssetListSync_def)

lemma AssetListSync_failure:
  assumes "query e t w (\<lambda>path. path) = (resp, w')"
    and "err resp \<noteq> None \<or> (\<exists>msg. UnmarshalAssets e (body resp) = Inl msg)"
  shows "fst (AssetListSync e t w) = None"
  using assms
  by (auto simp: AssetListSync_def AssetList_def split: option.splits sum.splits)

text \<open>
  Claim C10 at its failing input. When the round trip fails, the goroutine stops at its
  send on the error channel, which \<open>AssetListSync\<close> never reads, and the result channel is
  never closed: \<open>AssetListSync\<close> does not return. An empty listing returns the empty list.
\<close>

theorem AssetListSync_failed_listing_blocks:
  "fst (AssetListSync (exampleEnv\<lparr>Transport := (\<lambda>h r. Inl ''connection refused'')\<rparr>)
          exampleClient emptyWorld) = None \<and>
   fst (AssetListSync (exampleEnv\<lparr>UnmarshalAssets := (\<lambda>b. Inr [''assets'' \<mapsto> []])\<rparr>)
          exampleClient emptyWorld) = Some []"
  by (simp add: AssetListSync_def AssetList_def query_def http_NewRequest_def client_Do_def Let_def
      exampleEnv_def exampleClient_def emptyWorld_def sort_ByAsset_def
      ignoreCompiledAssets_def zeroAsset_def)

section \<open>The limiter accessor\<close>

text \<open>
  Claim C8, as the code has it. Every call of \<open>LeakyBucket\<close> constructs a limiter from the
  configured bucket size and refill rate with cost 1 and returns a pointer that was not
  in use before: two calls in a row return two different pointers, to two limiters with
  the same parameters, and leave the limiters that existed before as they were.
\<close>

theorem LeakyBucket_fresh:
  "fst (LeakyBucket t w) \<noteq> fst (LeakyBucket t (snd (LeakyBucket t w))) \<and>
   fst (LeakyBucket t w) = length (limiters w) \<and>
   fst (LeakyBucket t (snd (LeakyBucket t w))) = length (limiters w) + 1 \<and>
   limiters (snd (LeakyBucket t (snd (LeakyBucket t w)))) =
     limiters w @
       [\<lparr>capacity = BucketSize (config t), refillRate = RefillRate (config t), acquireCost = 1\<rparr>,
        \<lparr>capacity = BucketSize (config t), refillRate = RefillRate (config t), acquireCost = 1\<rparr>]"
  by (simp add: LeakyBucket_def NewLeakyBucket_def)

text \<open>Claim C8 as stated fails: two accesses do not yield the same instance.\<close>

theorem LeakyBucket_shared_counterexample:
  "fst (LeakyBucket exampleClient emptyWorld) \<noteq>
   fst (LeakyBucket exampleClient (snd (LeakyBucket exampleClient emptyWorld)))"
  by (simp add: LeakyBucket_def NewLeakyBucket_def emptyWorld_def)

section \<open>Theme creation\<close>

lemma sendData_sent:
  "UrlParse e path = None \<Longrightarrow> method \<noteq> [] \<Longrightarrow>
   sendData e w method path payload =
     Returned (themeEventOf e (sent w) \<lparr>Method = method, Url = path, Payload = payload\<rparr>,
               w\<lparr>sent := sent w @ [\<lparr>Method = method, Url = path, Payload = payload\<rparr>]\<rparr>)"
  by (simp add: sendData_def http_NewRequest_def client_Do_def themeEventOf_def split: sum.splits)

lemma createLoop_retry:
  assumes "UrlParse e path = None" and "retries < CreateThemeMaxRetries"
    and "\<not> Successful (themeEventOf e (sent w) \<lparr>Method = ''POST'', Url = path, Payload = payload\<rparr>)"
  shows "createLoop e path payload retries False themeEvent w =
     createLoop e path payload (retries + 1) False
       (themeEventOf e (sent w) \<lparr>Method = ''POST'', Url = path, Payload = payload\<rparr>)
       (w\<lparr>sent := sent w @ [\<lparr>Method = ''POST'', Url = path, Payload = payload\<rparr>],
          logged := logged w @ [themeEventOf e (sent w) \<lparr>Method = ''POST'', Url = path, Payload = payload\<rparr>]\<rparr>)"
  using assms
  by (subst createLoop.simps) (simp add: sendData_sent)

lemma createLoop_exhausted:
  "CreateThemeMaxRetries \<le> retries \<Longrightarrow>
   createLoop e path payload retries ready themeEvent w = Returned (retries, themeEvent, w)"
  by (subst createLoop.simps) simp

text \<open>
  Claim C2. When every creation attempt returns an unsuccessful result, the retry loop
  makes exactly three attempts (three POST requests are sent, three events are logged),
  \<open>NotifyError\<close> is then given the error whose message is the archive location in single
  quotes followed by \<open>cannot be retrieved from Github.\<close>, so the message contains the
  location, and the result carried on is that of the third attempt, which is
  unsuccessful: \<open>CreateTheme\<close> goes on to poll the status of the theme identifier of that
  result.
\<close>

theorem createPhase_three_attempts:
  assumes parse: "UrlParse e (AdminUrl (config t) @ ''/themes.json'') = None"
    and fail: "\<forall>h. \<not> Successful (themeEventOf e h (createRequest e t name zipLocation))"
  shows "createPhase e t w name zipLocation =
      Returned (3, attempt e t name zipLocation w 2,
        w\<lparr>sent := sent w @ replicate 3 (createRequest e t name zipLocation),
           logged := logged w @ map (attempt e t name zipLocation w) [0, 1, 2],
           notified := notified w @ [retriesExhausted zipLocation]\<rparr>) \<and>
     \<not> Successful (attempt e t name zipLocation w 2) \<and>
     CreateTheme e t w name zipLocation =
      (case pollLoop e t (APIThemeEvent.ThemeId (attempt e t name zipLocation w 2))
          (w\<lparr>sent := sent w @ replicate 3 (createRequest e t name zipLocation),
             logged := logged w @ map (attempt e t name zipLocation w) [0, 1, 2],
             notified := notified w @ [retriesExhausted zipLocation]\<rparr>) of
         None \<Rightarrow> None
       | Some Crashed \<Rightarrow> Some Crashed
       | Some (Returned w'') \<Rightarrow>
           Some (Returned (boundClient e t (attempt e t name zipLocation w 2), w''))) \<and>
     retriesExhausted zipLocation =
       Generic ([CHR 0x27] @ zipLocation @ [CHR 0x27] @ '' cannot be retrieved from Github.'') \<and>
     sublist zipLocation
       ([CHR 0x27] @ zipLocation @ [CHR 0x27] @ '' cannot be retrieved from Github.'')"
proof -
  let ?path = "AdminUrl (config t) @ ''/themes.json''"
  let ?payload = "MarshalTheme e \<lparr>Name = name, Source = zipLocation, Role = ''unpublished'',
                                Id = 0, Theme.Previewable = False\<rparr>"
  let ?req = "\<lparr>Method = ''POST'', Url = ?path, Payload = ?payload\<rparr>"
  have req: "createRequest e t name zipLocation = ?req"
    by (simp add: createRequest_def)
  from fail have f: "\<not> Successful (themeEventOf e h ?req)" for h
    by (simp add: req)
  let ?e1 = "themeEventOf e (sent w) ?req"
  let ?w1 = "w\<lparr>sent := sent w @ [?req], logged := logged w @ [?e1]\<rparr>"
  let ?e2 = "themeEventOf e (sent ?w1) ?req"
  let ?w2 = "?w1\<lparr>sent := sent ?w1 @ [?req], logged := logged ?w1 @ [?e2]\<rparr>"
  let ?e3 = "themeEventOf e (sent ?w2) ?req"
  let ?w3 = "?w2\<lparr>sent := sent ?w2 @ [?req], logged := logged ?w2 @ [?e3]\<rparr>"
  have s1: "createLoop e ?path ?payload 0 False zeroThemeEvent w =
      createLoop e ?path ?payload 1 False ?e1 ?w1"
    using createLoop_retry [where retries = 0 and w = w and themeEvent = zeroThemeEvent
        and payload = ?payload, OF parse _ f]
    by (simp add: CreateThemeMaxRetries_def)
  have s2: "createLoop e ?path ?payload 1 False ?e1 ?w1 =
      createLoop e ?path ?payload 2 False ?e2 ?w2"
    using createLoop_retry [where retries = 1 and w = ?w1 and themeEvent = ?e1
        and payload = ?payload, OF parse _ f]
    by (simp add: CreateThemeMaxRetries_def)
  have s3: "createLoop e ?path ?payload 2 False ?e2 ?w2 =
      createLoop e ?path ?payload 3 False ?e3 ?w3"
    using createLoop_retry [where retries = 2 and w = ?w2 and themeEvent = ?e2
        and payload = ?payload, OF parse _ f]
    by (simp add: CreateThemeMaxRetries_def)
  have s4: "createLoop e ?path ?payload 3 False ?e3 ?w3 = Returned (3, ?e3, ?w3)"
    by (rule createLoop_exhausted) (simp add: CreateThemeMaxRetries_def)
  from s1 s2 s3 s4 have loop: "createLoop e ?path ?payload 0 False zeroThemeEvent w =
      Returned (3, ?e3, ?w3)"
    by simp
  have two: "replicate 2 ?req = [?req, ?req]" and three: "replicate 3 ?req = [?req, ?req, ?req]"
    by (simp_all add: numeral_2_eq_2 numeral_3_eq_3)
  from loop have "createPhase e t w name zipLocation =
      Returned (3, ?e3, NotifyError (retriesExhausted zipLocation) ?w3)"
    by (simp add: createPhase_def CreateThemeMaxRetries_def)
  then have phase: "createPhase e t w name zipLocation =
      Returned (3, themeEventOf e (sent w @ [?req, ?req]) ?req,
        w\<lparr>sent := sent w @ [?req, ?req, ?req],
           logged := logged w @ [?e1, themeEventOf e (sent w @ [?req]) ?req,
             themeEventOf e (sent w @ [?req, ?req]) ?req],
           notified := notified w @ [retriesExhausted zipLocation]\<rparr>)"
    by (simp add: NotifyError_def)
  from phase have whole: "CreateTheme e t w name zipLocation =
      (case pollLoop e t (APIThemeEvent.ThemeId (themeEventOf e (sent w @ [?req, ?req]) ?req))
          (w\<lparr>sent := sent w @ [?req, ?req, ?req],
             logged := logged w @ [?e1, themeEventOf e (sent w @ [?req]) ?req,
               themeEventOf e (sent w @ [?req, ?req]) ?req],
             notified := notified w @ [retriesExhausted zipLocation]\<rparr>) of
         None \<Rightarrow> None
       | Some Crashed \<Rightarrow> Some Crashed
       | Some (Returned w'') \<Rightarrow>
           Some (Returned
             (boundClient e t (themeEventOf e (sent w @ [?req, ?req]) ?req), w'')))"
    by (simp add: CreateTheme_def)
  have a0: "attempt e t name zipLocation w 0 = ?e1"
    and a1: "attempt e t name zipLocation w (Suc 0) = themeEventOf e (sent w @ [?req]) ?req"
    and a2: "attempt e t name zipLocation w 2 = themeEventOf e (sent w @ [?req, ?req]) ?req"
    by (simp_all add: attempt_def req two)
  let ?w' = "w\<lparr>sent := sent w @ replicate 3 (createRequest e t name zipLocation),
       logged := logged w @ map (attempt e t name zipLocation w) [0, 1, 2],
       notified := notified w @ [retriesExhausted zipLocation]\<rparr>"
  from phase have p1: "createPhase e t w name zipLocation =
      Returned (3, attempt e t name zipLocation w 2, ?w')"
    by (simp add: a0 a1 a2 req three)
  from f [of "sent w @ [?req, ?req]"] have p2: "\<not> Successful (attempt e t name zipLocation w 2)"
    by (simp add: a2)
  from whole have p3: "CreateTheme e t w name zipLocation =
      (case pollLoop e t (APIThemeEvent.ThemeId (attempt e t name zipLocation w 2)) ?w' of
         None \<Rightarrow> None
       | Some Crashed \<Rightarrow> Some Crashed
       | Some (Returned w'') \<Rightarrow>
           Some (Returned (boundClient e t (attempt e t name zipLocation w 2), w'')))"
    unfolding a0 a1 [unfolded One_nat_def [symmetric]] a2 req three list.map by this
  have p4: "retriesExhausted zipLocation =
      Generic ([CHR 0x27] @ zipLocation @ [CHR 0x27] @ '' cannot be retrieved from Github.'')"
    by (simp add: retriesExhausted_def)
  have p5: "sublist zipLocation
      ([CHR 0x27] @ zipLocation @ [CHR 0x27] @ '' cannot be retrieved from Github.'')"
    unfolding sublist_def by blast
  from conjI [OF p1 conjI [OF p2 conjI [OF p3 conjI [OF p4 p5]]]] show ?thesis .
qed

theorem createPhase_three_attempts_witness:
  "(case createPhase
      (exampleEnv\<lparr>Transport := (\<lambda>h r. Inr \<lparr>StatusCode = 404, Body = [], ReadErr = None\<rparr>)\<rparr>)
      exampleClient emptyWorld ''Timber-latest'' ''https://example.org/latest.zip'' of
      Crashed \<Rightarrow> False
    | Returned (retries, themeEvent, w') \<Rightarrow>
        retries = 3 \<and> length (sent w') = 3 \<and> \<not> Successful themeEvent \<and>
        notified w' =
          [Generic ([CHR 0x27] @ ''https://example.org/latest.zip'' @ [CHR 0x27] @
             '' cannot be retrieved from Github.'')])"
proof -
  let ?e = "exampleEnv\<lparr>Transport :=
      (\<lambda>h r. Inr \<lparr>StatusCode = 404, Body = [], ReadErr = None\<rparr>)\<rparr>"
  have parse: "UrlParse ?e (AdminUrl (config exampleClient) @ ''/themes.json'') = None"
    by (simp add: exampleEnv_def)
  have fail: "\<forall>h. \<not> Successful (themeEventOf ?e h
      (createRequest ?e exampleClient ''Timber-latest'' ''https://example.org/latest.zip''))"
    by (simp add: themeEventOf_def exampleEnv_def)
  from createPhase_three_attempts [OF parse fail, of emptyWorld] show ?thesis
    by (simp add: emptyWorld_def)
qed

lemma Sprintd_examples: "Sprintd 0 = ''0'' \<and> Sprintd 42 = ''42'' \<and> Sprintd (- 7) = ''-7''"
  by code_simp

lemma isDoneProcessing_sent:
  "UrlParse e (statusPath t themeId) = None \<Longrightarrow>
   isDoneProcessing e t w themeId =
     Returned (APIThemeEvent.Previewable (themeEventOf e (sent w) (statusRequest t themeId)),
               w\<lparr>sent := sent w @ [statusRequest t themeId]\<rparr>)"
  by (simp add: isDoneProcessing_def sendData_sent statusRequest_def)

lemma pollLoop_wait:
  assumes "UrlParse e (statusPath t themeId) = None"
    and "\<not> APIThemeEvent.Previewable (themeEventOf e (sent w) (statusRequest t themeId))"
  shows "pollLoop e t themeId w =
     pollLoop e t themeId
       (w\<lparr>sent := sent w @ [statusRequest t themeId], slept := slept w + 250\<rparr>)"
  using assms by (subst pollLoop.simps) (simp add: isDoneProcessing_sent)

lemma pollLoop_ready:
  assumes "UrlParse e (statusPath t themeId) = None"
    and "APIThemeEvent.Previewable (themeEventOf e (sent w) (statusRequest t themeId))"
  shows "pollLoop e t themeId w = Some (Returned (w\<lparr>sent := sent w @ [statusRequest t themeId]\<rparr>))"
  using assms by (subst pollLoop.simps) (simp add: isDoneProcessing_sent)

lemma pollLoop_counts:
  assumes parse: "UrlParse e (statusPath t themeId) = None"
    and status: "\<forall>h. APIThemeEvent.Previewable (themeEventOf e h (statusRequest t themeId)) =
        (N \<le> count_list h (statusRequest t themeId))"
  shows "count_list (sent w) (statusRequest t themeId) + d = N \<Longrightarrow>
     pollLoop e t themeId w =
       Some (Returned (w\<lparr>sent := sent w @ replicate (d + 1) (statusRequest t themeId),
                         slept := slept w + 250 * d\<rparr>))"
proof (induction d arbitrary: w)
  case 0
  with status have "APIThemeEvent.Previewable (themeEventOf e (sent w) (statusRequest t themeId))"
    by simp
  from pollLoop_ready [OF parse this] show ?case by simp
next
  case (Suc d)
  let ?w = "w\<lparr>sent := sent w @ [statusRequest t themeId], slept := slept w + 250\<rparr>"
  from Suc.prems status
  have "\<not> APIThemeEvent.Previewable (themeEventOf e (sent w) (statusRequest t themeId))"
    by simp
  from pollLoop_wait [OF parse this]
  have step: "pollLoop e t themeId w = pollLoop e t themeId ?w" .
  from Suc.prems have "count_list (sent ?w) (statusRequest t themeId) + d = N"
    by simp
  from Suc.IH [OF this] step show ?case
    by (simp add: replicate_append_same)
qed

lemma pollLoop_returns_previewable:
  assumes "pollLoop e t themeId w = Some r"
  shows "case r of Crashed \<Rightarrow> True
         | Returned w' \<Rightarrow> sent w' \<noteq> [] \<and> last (sent w') = statusRequest t themeId \<and>
             APIThemeEvent.Previewable (themeEventOf e (butlast (sent w')) (statusRequest t themeId))"
proof (rule pollLoop.raw_induct [where P = "\<lambda>e t themeId w r. case r of Crashed \<Rightarrow> True
         | Returned w' \<Rightarrow> sent w' \<noteq> [] \<and> last (sent w') = statusRequest t themeId \<and>
             APIThemeEvent.Previewable (themeEventOf e (butlast (sent w')) (statusRequest t themeId))",
       OF _ assms])
  fix f e t themeId w r
  assume IH: "\<And>e t themeId w r. f e t themeId w = Some r \<Longrightarrow>
        (case r of Crashed \<Rightarrow> True
         | Returned w' \<Rightarrow> sent w' \<noteq> [] \<and> last (sent w') = statusRequest t themeId \<and>
             APIThemeEvent.Previewable (themeEventOf e (butlast (sent w')) (statusRequest t themeId)))"
    and run: "(case isDoneProcessing e t w themeId of
          Crashed \<Rightarrow> Some Crashed
        | Returned (isDone, w') \<Rightarrow>
            if \<not> isDone then f e t themeId (w'\<lparr>slept := slept w' + 250\<rparr>)
            else Some (Returned w')) = Some r"
  show "case r of Crashed \<Rightarrow> True
         | Returned w' \<Rightarrow> sent w' \<noteq> [] \<and> last (sent w') = statusRequest t themeId \<and>
             APIThemeEvent.Previewable (themeEventOf e (butlast (sent w')) (statusRequest t themeId))"
  proof (cases "UrlParse e (statusPath t themeId)")
    case (Some msg)
    with run show ?thesis
      by (auto simp: isDoneProcessing_def sendData_def http_NewRequest_def)
  next
    case None
    note iso = isDoneProcessing_sent [OF None, of w]
    show ?thesis
    proof (cases "APIThemeEvent.Previewable (themeEventOf e (sent w) (statusRequest t themeId))")
      case True
      with run iso show ?thesis by auto
    next
      case False
      with run iso have "f e t themeId
          (w\<lparr>sent := sent w @ [statusRequest t themeId], slept := slept w + 250\<rparr>) = Some r"
        by simp
      then show ?thesis by (rule IH)
    qed
  qed
qed

lemma createLoop_sent:
  "createLoop e path payload retries ready themeEvent w = Returned (retries', themeEvent', w') \<Longrightarrow>
   \<exists>k. sent w' = sent w @ replicate k \<lparr>Method = ''POST'', Url = path, Payload = payload\<rparr> \<and>
       slept w' = slept w"
proof (induction e path payload retries ready themeEvent w rule: createLoop.induct)
  case (1 e path payload retries ready themeEvent w)
  let ?req = "\<lparr>Method = ''POST'', Url = path, Payload = payload\<rparr>"
  show ?case
  proof (cases "retries < CreateThemeMaxRetries \<and> \<not> ready")
    case False
    with "1.prems" have "w' = w" by (subst (asm) createLoop.simps) simp
    then have "sent w' = sent w @ replicate 0 ?req \<and> slept w' = slept w" by simp
    then show ?thesis by blast
  next
    case True
    show ?thesis
    proof (cases "sendData e w ''POST'' path payload")
      case Crashed
      with True "1.prems" show ?thesis by (subst (asm) createLoop.simps) simp
    next
      case (Returned p)
      obtain ev w1 where p: "p = (ev, w1)" by (cases p)
      from Returned p have w1: "sent w1 = sent w @ [?req] \<and> slept w1 = slept w"
        by (auto simp: sendData_def http_NewRequest_def client_Do_def
            split: option.splits sum.splits)
      let ?w = "w1\<lparr>logged := logged w1 @ [ev]\<rparr>"
      show ?thesis
      proof (cases "Successful ev")
        case False
        with True Returned p "1.prems"
        have "createLoop e path payload (retries + 1) ready ev ?w = Returned (retries', themeEvent', w')"
          by (subst (asm) createLoop.simps) simp
        from "1.IH"(1) [OF True Returned p [symmetric] False this]
        obtain k where "sent w' = sent ?w @ replicate k ?req \<and> slept w' = slept ?w" by blast
        with w1 have "sent w' = sent w @ replicate (Suc k) ?req \<and> slept w' = slept w"
          by (simp add: replicate_app_Cons_same)
        then show ?thesis by blast
      next
        case Succ: True
        with True Returned p "1.prems"
        have "createLoop e path payload retries True ev ?w = Returned (retries', themeEvent', w')"
          by (subst (asm) createLoop.simps) simp
        moreover from Succ have "\<not> \<not> Successful ev" by simp
        ultimately obtain k where "sent w' = sent ?w @ replicate k ?req \<and> slept w' = slept ?w"
          using "1.IH"(2) [OF True Returned p [symmetric]] by blast
        with w1 have "sent w' = sent w @ replicate (Suc k) ?req \<and> slept w' = slept w"
          by (simp add: replicate_app_Cons_same)
        then show ?thesis by blast
      qed
    qed
  qed
qed

lemma createPhase_sent:
  assumes "createPhase e t w name zipLocation = Returned (retries, themeEvent, w1)"
  shows "\<exists>k. sent w1 = sent w @ replicate k (createRequest e t name zipLocation) \<and>
      slept w1 = slept w"
proof -
  let ?path = "AdminUrl (config t) @ ''/themes.json''"
  let ?payload = "MarshalTheme e \<lparr>Name = name, Source = zipLocation, Role = ''unpublished'',
                                Id = 0, Theme.Previewable = False\<rparr>"
  from assms obtain w0 where
    loop: "createLoop e ?path ?payload 0 False zeroThemeEvent w = Returned (retries, themeEvent, w0)"
    and w1: "w1 = w0 \<or> w1 = NotifyError (retriesExhausted zipLocation) w0"
    by (auto simp: createPhase_def Let_def split: outcome.splits if_splits)
  from createLoop_sent [OF loop] obtain k where
    "sent w0 = sent w @ replicate k \<lparr>Method = ''POST'', Url = ?path, Payload = ?payload\<rparr> \<and>
     slept w0 = slept w"
    by blast
  with w1 have "sent w1 = sent w @ replicate k (createRequest e t name zipLocation) \<and>
      slept w1 = slept w"
    by (auto simp: createRequest_def NotifyError_def)
  then show ?thesis by blast
qed

text \<open>
  Claim C3. Whenever the readiness poll returns, its last status query was answered
  previewable. If the status endpoint answers not previewable to the first \<open>N\<close> queries
  and previewable from then on, \<open>CreateTheme\<close> returns after exactly \<open>N + 1\<close> status queries
  and \<open>N\<close> sleeps of 250 ms, and the configuration of the client it returns holds the
  theme identifier of the creation result (\<open>Initialize\<close>, declared outside theme_client.go,
  is taken to keep the identifier it is given).
\<close>

theorem CreateTheme_waits_until_previewable:
  assumes phase: "createPhase e t w name zipLocation = Returned (retries, themeEvent, w1)"
    and parse: "UrlParse e (statusPath t (APIThemeEvent.ThemeId themeEvent)) = None"
    and before: "statusRequest t (APIThemeEvent.ThemeId themeEvent) \<notin> set (sent w)"
    and status: "\<forall>h. APIThemeEvent.Previewable
          (themeEventOf e h (statusRequest t (APIThemeEvent.ThemeId themeEvent))) =
        (N \<le> count_list h (statusRequest t (APIThemeEvent.ThemeId themeEvent)))"
    and init: "\<forall>c. Configuration.ThemeId (Initialize e c) = Configuration.ThemeId c"
  shows "CreateTheme e t w name zipLocation =
      Some (Returned
        (boundClient e t themeEvent,
         w1\<lparr>sent := sent w1 @
                replicate (N + 1) (statusRequest t (APIThemeEvent.ThemeId themeEvent)),
             slept := slept w1 + 250 * N\<rparr>)) \<and>
    Configuration.ThemeId (config (boundClient e t themeEvent)) =
      APIThemeEvent.ThemeId themeEvent \<and>
    (\<forall>w0 w'. pollLoop e t (APIThemeEvent.ThemeId themeEvent) w0 = Some (Returned w') \<longrightarrow>
       sent w' \<noteq> [] \<and>
       last (sent w') = statusRequest t (APIThemeEvent.ThemeId themeEvent) \<and>
       APIThemeEvent.Previewable
         (themeEventOf e (butlast (sent w')) (statusRequest t (APIThemeEvent.ThemeId themeEvent))))"
proof -
  let ?id = "APIThemeEvent.ThemeId themeEvent"
  let ?sreq = "statusRequest t ?id"
  from createPhase_sent [OF phase] obtain k where
    k: "sent w1 = sent w @ replicate k (createRequest e t name zipLocation)" by blast
  have "createRequest e t name zipLocation \<noteq> ?sreq"
    by (simp add: createRequest_def statusRequest_def)
  then have "count_list (replicate k (createRequest e t name zipLocation)) ?sreq = 0"
    by (induction k) simp_all
  with before k have "count_list (sent w1) ?sreq + N = N"
    by (simp add: count_list_0_iff)
  from pollLoop_counts [OF parse status this]
  have poll: "pollLoop e t ?id w1 =
      Some (Returned (w1\<lparr>sent := sent w1 @ replicate (N + 1) ?sreq, slept := slept w1 + 250 * N\<rparr>))" .
  from phase poll have 1: "CreateTheme e t w name zipLocation =
      Some (Returned
        (boundClient e t themeEvent,
         w1\<lparr>sent := sent w1 @ replicate (N + 1) ?sreq, slept := slept w1 + 250 * N\<rparr>))"
    by (simp add: CreateTheme_def)
  from init have 2: "Configuration.ThemeId (config (boundClient e t themeEvent)) = ?id"
    by (simp add: boundClient_def NewThemeClient_def)
  have 3: "sent w' \<noteq> [] \<and> last (sent w') = ?sreq \<and>
       APIThemeEvent.Previewable (themeEventOf e (butlast (sent w')) ?sreq)"
    if "pollLoop e t ?id w0 = Some (Returned w')" for w0 w'
    using pollLoop_returns_previewable [OF that] by simp
  from 1 2 3 show ?thesis by blast
qed

theorem CreateTheme_waits_until_previewable_witness:
  "(case CreateTheme
      (exampleEnv\<lparr>Transport := (\<lambda>h r.
         if Method r = ''GET'' \<and> 2 \<le> count_list h r
         then Inr \<lparr>StatusCode = 200, Body = ''previewable'', ReadErr = None\<rparr>
         else Inr \<lparr>StatusCode = 200, Body = [], ReadErr = None\<rparr>)\<rparr>)
      exampleClient emptyWorld ''Timber-latest'' ''https://example.org/latest.zip'' of
      Some (Returned (client, w')) \<Rightarrow>
        Configuration.ThemeId (config client) = 7 \<and>
        count_list (sent w') (statusRequest exampleClient 7) = 3 \<and>
        length (sent w') = 4 \<and> slept w' = 500
    | _ \<Rightarrow> False)"
proof -
  let ?e = "exampleEnv\<lparr>Transport := (\<lambda>h r.
         if Method r = ''GET'' \<and> 2 \<le> count_list h r
         then Inr \<lparr>StatusCode = 200, Body = ''previewable'', ReadErr = None\<rparr>
         else Inr \<lparr>StatusCode = 200, Body = [], ReadErr = None\<rparr>)\<rparr>"
  let ?creq = "createRequest ?e exampleClient ''Timber-latest'' ''https://example.org/latest.zip''"
  let ?ev = "\<lparr>Successful = True, APIThemeEvent.ThemeId = 7, APIThemeEvent.Previewable = False\<rparr>"
  let ?w1 = "emptyWorld\<lparr>sent := [?creq], logged := [?ev]\<rparr>"
  have phase: "createPhase ?e exampleClient emptyWorld ''Timber-latest''
      ''https://example.org/latest.zip'' = Returned (0, ?ev, ?w1)"
    by (simp add: createPhase_def createLoop.simps sendData_def http_NewRequest_def
        client_Do_def CreateThemeMaxRetries_def createRequest_def zeroThemeEvent_def
        exampleEnv_def exampleClient_def emptyWorld_def)
  have parse: "UrlParse ?e (statusPath exampleClient (APIThemeEvent.ThemeId ?ev)) = None"
    by (simp add: exampleEnv_def)
  have before: "statusRequest exampleClient (APIThemeEvent.ThemeId ?ev) \<notin> set (sent emptyWorld)"
    by (simp add: emptyWorld_def)
  have status: "\<forall>h. APIThemeEvent.Previewable
          (themeEventOf ?e h (statusRequest exampleClient (APIThemeEvent.ThemeId ?ev))) =
        (2 \<le> count_list h (statusRequest exampleClient (APIThemeEvent.ThemeId ?ev)))"
    by (simp add: themeEventOf_def statusRequest_def exampleEnv_def)
  have init: "\<forall>c. Configuration.ThemeId (Initialize ?e c) = Configuration.ThemeId c"
    by (simp add: exampleEnv_def)
  have "createRequest ?e exampleClient ''Timber-latest'' ''https://example.org/latest.zip'' \<noteq>
      statusRequest exampleClient 7"
    by (simp add: createRequest_def statusRequest_def)
  with CreateTheme_waits_until_previewable [OF phase parse before status init]
  show ?thesis
    by (simp add: emptyWorld_def numeral_3_eq_3)
qed

end
